theory Spec2Isabelle
  imports Main
begin

section \<open>JavaScript values and the object store\<close>

text \<open>
  The sources are TypeScript modules. Their values are modelled as JavaScript has them at
  run time: \<open>undefined\<close>, \<open>null\<close>, booleans, numbers, strings and references to objects.
  Classes (component types such as \<open>ModalCmp\<close>) and the application object are objects too,
  so they are references. Numbers are restricted to integers: nothing below depends on
  a fraction or on \<open>NaN\<close>.
\<close>

type_synonym addr = nat

datatype jsval = JUndefined | JNull | JBool bool | JNum int | JStr string | JRef addr

text \<open>An object is its own properties; a property that is absent reads as \<open>undefined\<close>.\<close>

type_synonym obj = "string \<rightharpoonup> jsval"

text \<open>
  Modelled from the spec: the overlay classification tag that the presenter is given.
  The enumeration \<open>AppPortal\<close> is declared in \<open>app-root\<close>, which is not among the
  sources; \<open>Modal.present\<close> uses its member \<open>MODAL\<close>, and the other members stand for
  the other kinds of overlay.
\<close>

datatype AppPortal = DEFAULT | MODAL | LOADING | TOAST

text \<open>
  The store: every object lives at an address, addresses below \<open>nxt\<close> are allocated.
  \<open>calls\<close> records, in order, the calls received by the external presenter
  (\<open>App.present\<close>): the view, the navigation options and the overlay tag of each.
\<close>

record world =
  objs :: "addr \<Rightarrow> obj"
  nxt :: addr
  calls :: "(jsval \<times> jsval \<times> AppPortal) list"

datatype error = TypeError

definition bindE :: "error + 'a \<Rightarrow> ('a \<Rightarrow> error + 'b) \<Rightarrow> error + 'b" where
  "bindE r f = (case r of Inl e \<Rightarrow> Inl e | Inr x \<Rightarrow> f x)"

text \<open>\<open>!!v\<close>: the truthiness of a value.\<close>

fun truthy :: "jsval \<Rightarrow> bool" where
  "truthy JUndefined = False"
| "truthy JNull = False"
| "truthy (JBool b) = b"
| "truthy (JNum n) = (n \<noteq> 0)"
| "truthy (JStr s) = (s \<noteq> [])"
| "truthy (JRef a) = True"

text \<open>
  Modelled from the spec: \<open>isPresent\<close> of \<open>util/util\<close> is imported by the modal module
  and is not among the sources. The spec calls it a presence check that guards the
  truthiness coercion: a value is present when it is neither \<open>undefined\<close> nor \<open>null\<close>.
\<close>

fun isPresent :: "jsval \<Rightarrow> bool" where
  "isPresent JUndefined = False"
| "isPresent JNull = False"
| "isPresent v = True"

text \<open>The object literal \<open>{}\<close> and \<open>new\<close>: a fresh object at the next free address.\<close>

definition alloc :: "obj \<Rightarrow> world \<Rightarrow> jsval \<times> world" where
  "alloc ob w = (JRef (nxt w), w\<lparr>objs := (objs w)(nxt w := ob), nxt := Suc (nxt w)\<rparr>)"

text \<open>
  \<open>v.k\<close>: reading a property of \<open>undefined\<close> or \<open>null\<close> throws a TypeError; an object
  gives its property or \<open>undefined\<close>; the other primitives have none of the properties
  read in these sources.
\<close>

fun getp :: "world \<Rightarrow> jsval \<Rightarrow> string \<Rightarrow> error + jsval" where
  "getp w JUndefined k = Inl TypeError"
| "getp w JNull k = Inl TypeError"
| "getp w (JRef a) k = Inr (case objs w a k of None \<Rightarrow> JUndefined | Some v \<Rightarrow> v)"
| "getp w v k = Inr JUndefined"

text \<open>
  \<open>v.k = x\<close>: module code is strict, so assigning a property of anything but an object
  throws a TypeError.
\<close>

fun setp :: "jsval \<Rightarrow> string \<Rightarrow> jsval \<Rightarrow> world \<Rightarrow> error + world" where
  "setp (JRef a) k x w = Inr (w\<lparr>objs := (objs w)(a := (objs w a)(k \<mapsto> x))\<rparr>)"
| "setp v k x w = Inl TypeError"

section \<open>Modal and ModalController\<close>

text \<open>
  Modelled from the spec: the constructor of \<open>ViewController\<close>, the base class of
  \<open>Modal\<close>, is not among the sources. By the spec a view instance holds a component
  reference and a data payload; the constructor stores the two it is given. Its third
  argument (a CSS class, \<open>null\<close> here) plays no part in the spec.
\<close>

definition ViewController_constructor ::
  "jsval \<Rightarrow> jsval \<Rightarrow> jsval \<Rightarrow> jsval \<Rightarrow> world \<Rightarrow> error + world" where
  "ViewController_constructor this componentType data rootCssClass w =
     bindE (setp this ''component'' componentType w) (\<lambda>w.
       setp this ''data'' data w)"

text \<open>
  \<open>new Modal(app, component, data, opts = {})\<close>. \<open>ModalCmp\<close> is the class imported from
  \<open>modal-component\<close>. The statements follow the source line by line; the instance itself
  is allocated when the base constructor is called.
\<close>

definition resolve_flag :: "jsval \<Rightarrow> jsval" where
  "resolve_flag v = (if isPresent v then JBool (truthy v) else JBool True)"

definition Modal_constructor ::
  "jsval \<Rightarrow> jsval \<Rightarrow> jsval \<Rightarrow> jsval \<Rightarrow> jsval \<Rightarrow> world \<Rightarrow> error + (jsval \<times> world)" where
  "Modal_constructor ModalCmp app component data0 opts0 w0 =
     (let (opts, w1) = (if opts0 = JUndefined then alloc Map.empty w0 else (opts0, w0));
          (data, w2) = (if truthy data0 then (data0, w1) else alloc Map.empty w1)
      in bindE (setp data ''component'' component w2) (\<lambda>w.
         bindE (getp w opts ''showBackdrop'') (\<lambda>sb.
         bindE (setp opts ''showBackdrop'' (resolve_flag sb) w) (\<lambda>w.
         bindE (getp w opts ''enableBackdropDismiss'') (\<lambda>ebd.
         bindE (setp opts ''enableBackdropDismiss'' (resolve_flag ebd) w) (\<lambda>w.
         bindE (setp data ''opts'' opts w) (\<lambda>w.
         (let (this, w) = alloc Map.empty w
          in bindE (ViewController_constructor this ModalCmp data JNull w) (\<lambda>w.
             bindE (setp this ''_app'' app w) (\<lambda>w.
             bindE (getp w opts ''enterAnimation'') (\<lambda>ea.
             bindE (setp this ''_enterAnimation'' ea w) (\<lambda>w.
             bindE (getp w opts ''leaveAnimation'') (\<lambda>la.
             bindE (setp this ''_leaveAnimation'' la w) (\<lambda>w.
             bindE (setp this ''isOverlay'' (JBool True) w) (\<lambda>w.
             Inr (this, w))))))))))))))))"

text \<open>
  \<open>ModalController.create(component, data = {}, opts = {})\<close>; \<open>app\<close> is the controller's
  \<open>_app\<close>. A default applies to an argument that is \<open>undefined\<close>.
\<close>

definition create ::
  "jsval \<Rightarrow> jsval \<Rightarrow> jsval \<Rightarrow> jsval \<Rightarrow> jsval \<Rightarrow> world \<Rightarrow> error + (jsval \<times> world)" where
  "create ModalCmp app component data0 opts0 w0 =
     (let (data, w1) = (if data0 = JUndefined then alloc Map.empty w0 else (data0, w0));
          (opts, w2) = (if opts0 = JUndefined then alloc Map.empty w1 else (opts0, w1))
      in Modal_constructor ModalCmp app component data opts w2)"

text \<open>
  \<open>getTransitionName(direction)\<close>. \<open>Config.get\<close> is outside these sources: it is the
  parameter \<open>config_get\<close>, applied to the store, the configuration object and the key.
  \<open>this._nav && e\<close> is \<open>this._nav\<close> itself when that is falsy.
\<close>

definition nav_config_get ::
  "(world \<Rightarrow> addr \<Rightarrow> string \<Rightarrow> jsval) \<Rightarrow> world \<Rightarrow> jsval \<Rightarrow> string \<Rightarrow> error + jsval" where
  "nav_config_get config_get w this key =
     bindE (getp w this ''_nav'') (\<lambda>nav.
       if \<not> truthy nav then Inr nav
       else bindE (getp w nav ''config'') (\<lambda>config.
              case config of JRef c \<Rightarrow> Inr (config_get w c key) | _ \<Rightarrow> Inl TypeError))"

definition getTransitionName ::
  "(world \<Rightarrow> addr \<Rightarrow> string \<Rightarrow> jsval) \<Rightarrow> world \<Rightarrow> jsval \<Rightarrow> string \<Rightarrow> error + jsval" where
  "getTransitionName config_get w this direction =
     (if direction = ''back'' then
        bindE (getp w this ''_leaveAnimation'') (\<lambda>la.
          if truthy la then Inr la else nav_config_get config_get w this ''modalLeave'')
      else
        bindE (getp w this ''_enterAnimation'') (\<lambda>ea.
          if truthy ea then Inr ea else nav_config_get config_get w this ''modalEnter''))"

text \<open>
  The completion signal of a presentation, and the external presenter \<open>App.present\<close>.
  The presenter is outside these sources: it is the parameter \<open>P\<close>, which is given the
  application object, the view, the navigation options and the overlay tag, and returns a
  signal and the store as it leaves it. Each call it receives is appended to \<open>calls\<close>.
  Calling a method of anything but an object throws a TypeError.
\<close>

datatype signal = Resolved | Rejected string

type_synonym presenter =
  "addr \<Rightarrow> jsval \<Rightarrow> jsval \<Rightarrow> AppPortal \<Rightarrow> world \<Rightarrow> signal \<times> world"

definition App_present ::
  "presenter \<Rightarrow> jsval \<Rightarrow> jsval \<Rightarrow> jsval \<Rightarrow> AppPortal \<Rightarrow> world \<Rightarrow> error + (signal \<times> world)" where
  "App_present P app view navOptions kind w =
     (case app of
        JRef a \<Rightarrow>
          (let (s, w') = P a view navOptions kind w
           in Inr (s, w'\<lparr>calls := calls w @ [(view, navOptions, kind)]\<rparr>))
      | _ \<Rightarrow> Inl TypeError)"

text \<open>\<open>present(navOptions = {})\<close>.\<close>

definition present ::
  "presenter \<Rightarrow> jsval \<Rightarrow> jsval \<Rightarrow> world \<Rightarrow> error + (signal \<times> world)" where
  "present P this navOptions0 w0 =
     (let (navOptions, w1) =
            (if navOptions0 = JUndefined then alloc Map.empty w0 else (navOptions0, w0))
      in bindE (getp w1 this ''_app'') (\<lambda>app.
           App_present P app this navOptions MODAL w1))"

section \<open>Label\<close>

text \<open>
  The constructor of \<open>Label\<close> computes \<open>type\<close> from the four attributes; an attribute
  arrives as a string, or as \<open>null\<close> when the element does not have it. \<open>===\<close> is strict
  equality, and \<open>type\<close> is a string or \<open>null\<close>.
\<close>

definition Label_type :: "jsval \<Rightarrow> jsval \<Rightarrow> jsval \<Rightarrow> jsval \<Rightarrow> jsval" where
  "Label_type isFloating isStacked isFixed isInset =
     (if isFloating = JStr '''' then JStr ''floating''
      else if isStacked = JStr '''' then JStr ''stacked''
      else if isFixed = JStr '''' then JStr ''fixed''
      else if isInset = JStr '''' then JStr ''inset''
      else JNull)"

text \<open>
  The fields of a label that the class itself declares, and the attributes it has set on
  its element. The constructor assigns \<open>type\<close>; \<open>_id\<close> is not initialised.
\<close>

record Label =
  label_type :: jsval
  label_id :: jsval
  element_attrs :: "string \<rightharpoonup> jsval"

definition Label_constructor :: "jsval \<Rightarrow> jsval \<Rightarrow> jsval \<Rightarrow> jsval \<Rightarrow> Label" where
  "Label_constructor isFloating isStacked isFixed isInset =
     \<lparr>label_type = Label_type isFloating isStacked isFixed isInset,
      label_id = JUndefined,
      element_attrs = Map.empty\<rparr>"

text \<open>
  The setter of \<open>id\<close>: it stores the value and, when the value is truthy, sets the
  element's attribute \<open>id\<close> (\<open>setElementAttribute\<close> of the base class \<open>Ion\<close>).
\<close>

definition set_id :: "jsval \<Rightarrow> Label \<Rightarrow> Label" where
  "set_id val l =
     (let l = l\<lparr>label_id := val\<rparr>
      in if truthy val then l\<lparr>element_attrs := (element_attrs l)(''id'' \<mapsto> val)\<rparr> else l)"

text \<open>
  The precedence of the attributes in words: the first of floating, stacked, fixed, inset
  that is bound to the empty string names the type.
\<close>

definition first_empty_attribute :: "(string \<times> jsval) list \<Rightarrow> jsval" where
  "first_empty_attribute as =
     (case find (\<lambda>(name, v). v = JStr '''') as of
        None \<Rightarrow> JNull
      | Some (name, v) \<Rightarrow> JStr name)"

section \<open>The animation registry\<close>

text \<open>
  The legacy modal module defines two animations and registers them when it is loaded. An
  animation is built from its target element by chained calls that set an easing curve, a
  duration and the start and end value of one property.
\<close>

type_synonym element = string

record animation =
  target :: element
  easing :: string
  duration :: nat
  fromTo :: "string \<times> string \<times> string"

type_synonym factory = "element \<Rightarrow> animation"

type_synonym registry = "string \<rightharpoonup> factory"

definition ModalSlideIn :: factory where
  "ModalSlideIn element =
     \<lparr>target = element, easing = ''cubic-bezier(.36,.66,.04,1)'', duration = 400,
      fromTo = (''translateY'', ''100%'', ''0%'')\<rparr>"

definition ModalSlideOut :: factory where
  "ModalSlideOut element =
     \<lparr>target = element, easing = ''ease-out'', duration = 250,
      fromTo = (''translateY'', ''0%'', ''100%'')\<rparr>"

text \<open>
  Modelled from the spec: \<open>Animation.register\<close> is called by the modal module, and the
  class \<open>Animation\<close> is not among the sources. By the spec, \<open>register(name, factory)\<close>
  stores the factory under the name, overwriting any prior registration for that name.
\<close>

definition register :: "string \<Rightarrow> factory \<Rightarrow> registry \<Rightarrow> registry" where
  "register name f r = r(name \<mapsto> f)"

text \<open>
  Modelled from the spec: the lookup of a name in the registry, which the class
  \<open>Animation\<close> would provide. By the spec, the lookup of an unregistered name is a
  configuration error.
\<close>

datatype config_error = UnregisteredAnimation string

definition lookup :: "registry \<Rightarrow> string \<Rightarrow> config_error + factory" where
  "lookup r name =
     (case r name of None \<Rightarrow> Inl (UnregisteredAnimation name) | Some f \<Rightarrow> Inr f)"

text \<open>Loading the modal module performs its two registrations, in the order of the file.\<close>

definition modal_module_load :: "registry \<Rightarrow> registry" where
  "modal_module_load r =
     register ''modal-slide-out'' ModalSlideOut (register ''modal-slide-in'' ModalSlideIn r)"

text \<open>A sequence of registrations, performed from left to right.\<close>

fun register_all :: "(string \<times> factory) list \<Rightarrow> registry \<Rightarrow> registry" where
  "register_all [] r = r"
| "register_all ((name, f) # rs) r = register_all rs (register name f r)"

section \<open>The lifecycle in the words of the spec\<close>





section \<open>Observations and examples\<close>

text \<open>
  What the statements below read off a store: whether a value is an object, whether a
  reference points to an allocated object, the properties of an argument before the
  call (an omitted argument has none), and the resolved options of a view instance, which
  the modal component reads as \<open>data.opts\<close>.
\<close>

fun is_object :: "jsval \<Rightarrow> bool" where
  "is_object (JRef a) = True"
| "is_object v = False"

fun valid :: "world \<Rightarrow> jsval \<Rightarrow> bool" where
  "valid w (JRef a) = (a < nxt w)"
| "valid w v = True"

fun arg_obj :: "world \<Rightarrow> jsval \<Rightarrow> obj" where
  "arg_obj w (JRef a) = objs w a"
| "arg_obj w v = Map.empty"

definition arg_prop :: "world \<Rightarrow> jsval \<Rightarrow> string \<Rightarrow> jsval" where
  "arg_prop w v k = (case arg_obj w v k of None \<Rightarrow> JUndefined | Some x \<Rightarrow> x)"

fun absent :: "world \<Rightarrow> jsval \<Rightarrow> string \<Rightarrow> bool" where
  "absent w JUndefined k = True"
| "absent w (JRef a) k = (objs w a k = None)"
| "absent w v k = False"

definition view_opts :: "world \<Rightarrow> jsval \<Rightarrow> string \<Rightarrow> error + jsval" where
  "view_opts w view k =
     bindE (getp w view ''data'') (\<lambda>data.
     bindE (getp w data ''opts'') (\<lambda>opts. getp w opts k))"


text \<open>
  A configuration whose \<open>get\<close> reads the settings kept in the configuration object
  (\<open>null\<close> for a key it does not have), and a presenter that resolves every call and
  touches nothing.
\<close>

definition settings_get :: "world \<Rightarrow> addr \<Rightarrow> string \<Rightarrow> jsval" where
  "settings_get w c key = (case objs w c key of None \<Rightarrow> JNull | Some v \<Rightarrow> v)"

definition accept_all :: presenter where
  "accept_all a view navOptions kind w = (Resolved, w)"

text \<open>
  An example store. 0 is the application, 1 the class \<open>ModalCmp\<close>, 2 a component class
  \<open>CompA\<close>, 3 the data object \<open>{userId: 8675309}\<close>, 4 the configuration, 5 a navigation
  controller with that configuration, 6 an options object. 7, 8 and 9 are the data, the
  options and the instance of a modal that has been created and attached to 5.
\<close>

definition modal_world :: world where
  "modal_world =
     \<lparr>objs = (\<lambda>a. Map.empty)
        (3 := [''userId'' \<mapsto> JNum 8675309],
         4 := [''modalEnter'' \<mapsto> JStr ''modal-slide-in'',
               ''modalLeave'' \<mapsto> JStr ''modal-slide-out''],
         5 := [''config'' \<mapsto> JRef 4],
         6 := [''enterAnimation'' \<mapsto> JStr ''no-such-animation'',
               ''showBackdrop'' \<mapsto> JBool False],
         7 := [''component'' \<mapsto> JRef 2, ''opts'' \<mapsto> JRef 8],
         8 := [''leaveAnimation'' \<mapsto> JStr ''my-fade-out'',
               ''showBackdrop'' \<mapsto> JBool True,
               ''enableBackdropDismiss'' \<mapsto> JBool True],
         9 := [''component'' \<mapsto> JRef 1, ''data'' \<mapsto> JRef 7, ''_app'' \<mapsto> JRef 0,
               ''_enterAnimation'' \<mapsto> JUndefined,
               ''_leaveAnimation'' \<mapsto> JStr ''my-fade-out'',
               ''isOverlay'' \<mapsto> JBool True, ''_nav'' \<mapsto> JRef 5]),
      nxt = 10, calls = []\<rparr>"

section \<open>Properties of Label\<close>

text \<open>
  C10: the type of a constructed label is named by the first of the attributes floating,
  stacked, fixed, inset (in this order) that is bound to the empty string, it is \<open>null\<close>
  when none of the four is, and the class's own setter of \<open>id\<close> leaves it as the
  constructor assigned it.
\<close>

theorem Label_type_precedence:
  "label_type (Label_constructor f s x i) =
     first_empty_attribute
       [(''floating'', f), (''stacked'', s), (''fixed'', x), (''inset'', i)]
   \<and> (label_type (Label_constructor f s x i) = JNull
        \<longleftrightarrow> f \<noteq> JStr '''' \<and> s \<noteq> JStr '''' \<and> x \<noteq> JStr '''' \<and> i \<noteq> JStr '''')
   \<and> label_type (set_id v (Label_constructor f s x i)) =
       label_type (Label_constructor f s x i)"
  by (simp add: Label_constructor_def Label_type_def first_empty_attribute_def
        set_id_def Let_def)

theorem Label_type_precedence_witness:
  "label_type (Label_constructor (JStr '''') (JStr '''') JNull JNull) = JStr ''floating''
   \<and> label_type (Label_constructor JNull (JStr ''x'') (JStr '''') (JStr '''')) = JStr ''fixed''
   \<and> label_type (Label_constructor JNull JNull JNull JNull) = JNull"
  using Label_type_precedence [of "JStr ''''" "JStr ''''" JNull JNull]
    Label_type_precedence [of JNull "JStr ''x''" "JStr ''''" "JStr ''''"]
    Label_type_precedence [of JNull JNull JNull JNull]
  by (simp add: first_empty_attribute_def)

section \<open>Properties of the construction of a modal\<close>

lemmas ctor_defs = create_def Modal_constructor_def ViewController_constructor_def
  alloc_def bindE_def resolve_flag_def view_opts_def arg_prop_def

text \<open>
  \<open>create\<close> throws exactly when \<open>data\<close> is a truthy value that is no object or \<open>opts\<close>
  is neither omitted nor an object; the statements below are about the other calls.
\<close>

lemma create_fails:
  assumes "(truthy data \<and> \<not> is_object data) \<or> (opts \<noteq> JUndefined \<and> \<not> is_object opts)"
  shows "create ModalCmp app component data opts w = Inl TypeError"
  using assms by (cases opts; cases data) (auto simp: ctor_defs)

text \<open>
  Each of the two flags of the resolved options is the truthiness of the value the caller
  gave when that value is present, and \<open>true\<close> otherwise.
\<close>

lemma create_flag:
  assumes "valid w data" "valid w opts" "\<not> truthy data \<or> is_object data"
    "opts = JUndefined \<or> is_object opts"
    "k = ''showBackdrop'' \<or> k = ''enableBackdropDismiss''"
  shows "\<exists>m w'. create ModalCmp app component data opts w = Inr (JRef m, w')
           \<and> view_opts w' (JRef m) k = Inr (resolve_flag (arg_prop w opts k))"
  using assms by (cases opts; cases data) (auto simp: ctor_defs)

text \<open>
  C1: for every options record given to \<open>create\<close> (or omitted) in which \<open>showBackdrop\<close>
  or \<open>enableBackdropDismiss\<close> is absent, the call returns a view instance whose resolved
  options have that field set to \<open>true\<close>.
\<close>

theorem create_absent_flag_true:
  assumes "valid w data" "valid w opts" "\<not> truthy data \<or> is_object data"
    "opts = JUndefined \<or> is_object opts"
    "k = ''showBackdrop'' \<or> k = ''enableBackdropDismiss''"
    "absent w opts k"
  shows "\<exists>m w'. create ModalCmp app component data opts w = Inr (JRef m, w')
           \<and> view_opts w' (JRef m) k = Inr (JBool True)"
proof -
  from assms(4,6) have "arg_prop w opts k = JUndefined"
    by (cases opts) (auto simp: arg_prop_def)
  with create_flag [OF assms(1-5), of ModalCmp app component] show ?thesis
    by (simp add: resolve_flag_def)
qed

theorem create_absent_flag_true_witness:
  "(\<exists>m w'. create (JRef 1) (JRef 0) (JRef 2) (JRef 3) JUndefined modal_world = Inr (JRef m, w')
           \<and> view_opts w' (JRef m) ''showBackdrop'' = Inr (JBool True))
   \<and> (\<exists>m w'. create (JRef 1) (JRef 0) (JRef 2) (JRef 3) (JRef 6) modal_world = Inr (JRef m, w')
           \<and> view_opts w' (JRef m) ''enableBackdropDismiss'' = Inr (JBool True))"
  using create_absent_flag_true [of modal_world "JRef 3" JUndefined "''showBackdrop''"
      "JRef 1" "JRef 0" "JRef 2"]
    create_absent_flag_true [of modal_world "JRef 3" "JRef 6" "''enableBackdropDismiss''"
      "JRef 1" "JRef 0" "JRef 2"]
  by (simp add: modal_world_def)

text \<open>
  C2: for every options record given to \<open>create\<close> in which \<open>showBackdrop\<close> or
  \<open>enableBackdropDismiss\<close> is explicitly \<open>false\<close>, the call returns a view instance whose
  resolved options keep \<open>false\<close> for that field.
\<close>

theorem create_explicit_false_kept:
  assumes "valid w data" "valid w (JRef a)" "\<not> truthy data \<or> is_object data"
    "k = ''showBackdrop'' \<or> k = ''enableBackdropDismiss''"
    "objs w a k = Some (JBool False)"
  shows "\<exists>m w'. create ModalCmp app component data (JRef a) w = Inr (JRef m, w')
           \<and> view_opts w' (JRef m) k = Inr (JBool False)"
proof -
  from assms(5) have "arg_prop w (JRef a) k = JBool False"
    by (simp add: arg_prop_def)
  with create_flag [OF assms(1-3) _ assms(4), of ModalCmp app component] show ?thesis
    by (simp add: resolve_flag_def)
qed

theorem create_explicit_false_kept_witness:
  "\<exists>m w'. create (JRef 1) (JRef 0) (JRef 2) JUndefined (JRef 6) modal_world = Inr (JRef m, w')
           \<and> view_opts w' (JRef m) ''showBackdrop'' = Inr (JBool False)"
  using create_explicit_false_kept [of modal_world JUndefined 6 "''showBackdrop''"
      "JRef 1" "JRef 0" "JRef 2"]
  by (simp add: modal_world_def)






text \<open>
  The example of the spec, computed: \<open>create(CompA, {userId: 8675309})\<close> allocates the
  options object at 10 and the instance at 11.
\<close>

lemma create_example:
  "create (JRef 1) (JRef 0) (JRef 2) (JRef 3) JUndefined modal_world =
     Inr (JRef 11,
       modal_world\<lparr>objs := (objs modal_world)
          (10 := [''showBackdrop'' \<mapsto> JBool True, ''enableBackdropDismiss'' \<mapsto> JBool True],
           3 := [''userId'' \<mapsto> JNum 8675309, ''component'' \<mapsto> JRef 2, ''opts'' \<mapsto> JRef 10],
           11 := [''component'' \<mapsto> JRef 1, ''data'' \<mapsto> JRef 3, ''_app'' \<mapsto> JRef 0,
                  ''_enterAnimation'' \<mapsto> JUndefined, ''_leaveAnimation'' \<mapsto> JUndefined,
                  ''isOverlay'' \<mapsto> JBool True]),
        nxt := 12\<rparr>)"
  by (simp add: ctor_defs modal_world_def)


section \<open>Properties of the transition name\<close>

lemmas trans_defs = getTransitionName_def nav_config_get_def

text \<open>
  C3, as the code has it: for every modal instance that is attached to a navigation
  controller with a configuration object, and every direction \<open>d\<close>:
  \<open>getTransitionName(d)\<close> with \<open>d = 'back'\<close> returns the instance's leave animation when
  that is truthy (a non-empty string) and otherwise what the configuration gives for
  \<open>modalLeave\<close>; with any other \<open>d\<close> it returns the enter animation when that is truthy
  and otherwise what the configuration gives for \<open>modalEnter\<close>.
\<close>

theorem getTransitionName_attached:
  assumes "objs w m ''_nav'' = Some (JRef n)" "objs w n ''config'' = Some (JRef c)"
  shows "getTransitionName config_get w (JRef m) d =
           Inr (if d = ''back''
                then (if truthy (arg_prop w (JRef m) ''_leaveAnimation'')
                      then arg_prop w (JRef m) ''_leaveAnimation''
                      else config_get w c ''modalLeave'')
                else (if truthy (arg_prop w (JRef m) ''_enterAnimation'')
                      then arg_prop w (JRef m) ''_enterAnimation''
                      else config_get w c ''modalEnter''))"
  using assms by (simp add: trans_defs bindE_def arg_prop_def split: option.splits)

theorem getTransitionName_attached_witness:
  "getTransitionName settings_get modal_world (JRef 9) ''back'' = Inr (JStr ''my-fade-out'')
   \<and> getTransitionName settings_get modal_world (JRef 9) ''forward'' =
       Inr (JStr ''modal-slide-in'')"
  using getTransitionName_attached [of modal_world 9 5 4 settings_get "''back''"]
    getTransitionName_attached [of modal_world 9 5 4 settings_get "''forward''"]
  by (simp add: modal_world_def arg_prop_def settings_get_def)

text \<open>
  An instance that \<open>create\<close> has just returned is not attached: its leave animation is
  not set, the configuration has \<open>modal-slide-out\<close> for \<open>modalLeave\<close>, and
  \<open>getTransitionName('back')\<close> returns \<open>undefined\<close>.
\<close>

theorem getTransitionName_counterexample:
  "bindE (create (JRef 1) (JRef 0) (JRef 2) (JRef 3) JUndefined modal_world)
     (\<lambda>(view, w). bindE (getp w view ''_leaveAnimation'') (\<lambda>la.
        bindE (getTransitionName settings_get w view ''back'') (\<lambda>name.
          Inr (la, name, settings_get w 4 ''modalLeave''))))
     = Inr (JUndefined, JUndefined, JStr ''modal-slide-out'')"
  by (simp add: ctor_defs trans_defs modal_world_def settings_get_def)

text \<open>
  An animation name that is set to the empty string is not truthy: the configuration's
  value is returned in its place.
\<close>

lemma getTransitionName_empty_name:
  "getTransitionName settings_get
     (modal_world\<lparr>objs := (objs modal_world)
        (9 := (objs modal_world 9)(''_leaveAnimation'' \<mapsto> JStr ''''))\<rparr>)
     (JRef 9) ''back'' = Inr (JStr ''modal-slide-out'')"
  by (simp add: trans_defs bindE_def modal_world_def settings_get_def)

section \<open>Properties of present\<close>

text \<open>
  C6: for every modal instance \<open>m\<close> (an instance holds its application object) and
  navigation options \<open>n\<close>, \<open>m.present(n)\<close> calls the presenter exactly once, with \<open>m\<close>,
  \<open>n\<close> and the tag \<open>MODAL\<close>, and returns the presenter's completion signal unchanged.
\<close>

theorem present_delegates_once:
  assumes "objs w m ''_app'' = Some (JRef a)" "n \<noteq> JUndefined"
  shows "present P (JRef m) n w =
           Inr (fst (P a (JRef m) n MODAL w),
                (snd (P a (JRef m) n MODAL w))\<lparr>calls := calls w @ [(JRef m, n, MODAL)]\<rparr>)"
  using assms by (simp add: present_def App_present_def bindE_def split: prod.splits)

theorem present_delegates_once_witness:
  "present accept_all (JRef 9) (JRef 3) modal_world =
     Inr (Resolved, modal_world\<lparr>calls := [(JRef 9, JRef 3, MODAL)]\<rparr>)
   \<and> present (\<lambda>a view n kind w. (Rejected ''busy'', w)) (JRef 9) (JRef 3) modal_world =
     Inr (Rejected ''busy'', modal_world\<lparr>calls := [(JRef 9, JRef 3, MODAL)]\<rparr>)"
  using present_delegates_once [of modal_world 9 0 "JRef 3" accept_all]
    present_delegates_once [of modal_world 9 0 "JRef 3" "\<lambda>a view n kind w. (Rejected ''busy'', w)"]
  by (simp add: modal_world_def accept_all_def)

text \<open>
  When the navigation options are omitted, the presenter is given a new empty object in
  their place.
\<close>

lemma present_default_options:
  assumes "m < nxt w" "objs w m ''_app'' = Some (JRef a)"
  shows "present P (JRef m) JUndefined w =
           (let (n, w1) = alloc Map.empty w
            in Inr (fst (P a (JRef m) n MODAL w1),
                 (snd (P a (JRef m) n MODAL w1))\<lparr>calls := calls w @ [(JRef m, n, MODAL)]\<rparr>))"
  using assms
  by (simp add: present_def App_present_def bindE_def alloc_def split: prod.splits)

text \<open>An instance returned by \<open>create\<close> holds the application object it was given.\<close>

lemma create_app:
  assumes "valid w data" "valid w opts" "create ModalCmp app component data opts w = Inr (v, w')"
  shows "getp w' v ''_app'' = Inr app"
  using assms
  by (cases opts; cases data) (auto simp: ctor_defs split: if_splits)







section \<open>Properties of the animation registry\<close>

lemma register_all_other:
  "n \<notin> fst ` set rs \<Longrightarrow> register_all rs r n = r n"
  by (induction rs arbitrary: r) (auto simp: register_def)

lemma register_all_dom: "dom r \<subseteq> dom (register_all rs r)"
proof (induction rs arbitrary: r)
  case Nil
  show ?case by simp
next
  case (Cons p rs)
  obtain name f where p: "p = (name, f)" by (cases p)
  have "dom r \<subseteq> dom (register name f r)" by (auto simp: register_def)
  also have "\<dots> \<subseteq> dom (register_all rs (register name f r))" by (rule Cons.IH)
  finally show ?case by (simp add: p)
qed

text \<open>
  C7: after \<open>register(n, f1)\<close> followed by \<open>register(n, f2)\<close>, every later lookup of
  \<open>n\<close> resolves to \<open>f2\<close>, whatever other names are registered in between, and no
  registration removes a name: every name registered before is registered after.
\<close>

theorem register_last_write_wins:
  assumes "n \<notin> fst ` set later"
  shows "lookup (register_all later (register n f2 (register n f1 r))) n = Inr f2
         \<and> dom r \<subseteq> dom (register_all later (register n f2 (register n f1 r)))"
proof -
  have "register_all later (register n f2 (register n f1 r)) n = Some f2"
    using assms by (simp add: register_all_other register_def)
  moreover have "dom r \<subseteq> dom (register n f2 (register n f1 r))"
    by (auto simp: register_def)
  moreover note register_all_dom [of "register n f2 (register n f1 r)" later]
  ultimately show ?thesis by (auto simp: lookup_def)
qed

theorem register_last_write_wins_witness:
  "lookup (modal_module_load
       (register ''my-fade'' ModalSlideOut (register ''my-fade'' ModalSlideIn Map.empty)))
     ''my-fade'' = Inr ModalSlideOut"
  using register_last_write_wins [of "''my-fade''"
      "[(''modal-slide-in'', ModalSlideIn), (''modal-slide-out'', ModalSlideOut)]"
      ModalSlideOut ModalSlideIn Map.empty]
  by (simp add: modal_module_load_def)

text \<open>After the modal module is loaded, its two names resolve to its two animations.\<close>

lemma modal_module_load_lookup:
  "lookup (modal_module_load r) ''modal-slide-in'' = Inr ModalSlideIn
   \<and> lookup (modal_module_load r) ''modal-slide-out'' = Inr ModalSlideOut"
  by (simp add: modal_module_load_def register_def lookup_def)

end
